theory Spec2Isabelle
  imports Complex_Main "HOL-Library.Sublist" "HOL-Library.AList" "HOL-Library.Multiset"
begin

section \<open>The performance analysis engine of playwright-har-reporter\<close>

text \<open>
  A shallow embedding of the analysis functions of
  \<^verbatim>\<open>src/helpers/performance-monitor.ts\<close>: the statistics
  (\<^verbatim>\<open>calculateMedian\<close>, \<^verbatim>\<open>calculatePercentile\<close>, \<^verbatim>\<open>calculateSummary\<close>),
  the categorizer (\<^verbatim>\<open>categorizeRequests\<close>), the rankings, the endpoint metrics
  (\<^verbatim>\<open>getApiMetrics\<close>), the threshold check, \<^verbatim>\<open>generateReport\<close> and
  \<^verbatim>\<open>ReportUtils.aggregateReports\<close>.

  Conventions of the embedding.
  \<^item> A JavaScript number is an exact \<open>real\<close> (an \<open>int\<close> for the HAR fields that
    hold integers: status and bodySize, a \<open>nat\<close> for a length or a counter). Rounding,
    NaN and infinite inputs are outside the model; the one infinity the code itself
    writes, the initial \<^verbatim>\<open>minTime: Infinity\<close>, is a constructor of its own.
  \<^item> An entry is an object whose fields may be absent: an absent field
    (\<^verbatim>\<open>undefined\<close>) is \<open>None\<close>. \<^verbatim>\<open>x || d\<close> takes \<open>d\<close> for an absent, zero or empty
    \<open>x\<close>; \<^verbatim>\<open>a?.b\<close> is absent when \<open>a\<close> is.
  \<^item> An object used as a dictionary (\<^verbatim>\<open>Record<string, T>\<close>) is an association list
    in insertion order, with distinct keys.
  \<^item> Two records of TypeScript may share a field name; here every field carries a
    prefix that names its record (\<open>e_time\<close>, \<open>rq_url\<close>, \<open>s_totalRequests\<close>, ...).
  \<^item> What the platform provides and the repository does not define is a parameter:
    \<^verbatim>\<open>JSON.parse\<close> (\<open>jsonParse\<close>), the pathname of \<^verbatim>\<open>new URL(..)\<close> (\<open>pathnameOf\<close>,
    \<open>None\<close> when the constructor throws) and \<^verbatim>\<open>Number.prototype.toFixed\<close> (\<open>toFixed\<close>).
\<close>

subsection \<open>HAR entries\<close>

record HarContent =
  c_mimeType :: "string option"

record HarRequest =
  rq_url :: "string option"
  rq_method :: "string option"

record HarResponse =
  rs_status :: "int option"
  rs_statusText :: "string option"
  rs_bodySize :: "int option"
  rs_content :: "HarContent option"

record HarEntry =
  e_time :: "real option"
  e_request :: "HarRequest option"
  e_response :: "HarResponse option"

text \<open>\<^verbatim>\<open>e.time || 0\<close>\<close>

definition timeOf :: "HarEntry \<Rightarrow> real" where
  "timeOf e = (case e_time e of None \<Rightarrow> 0 | Some t \<Rightarrow> t)"

text \<open>\<^verbatim>\<open>e.response?.bodySize\<close> and \<^verbatim>\<open>e.response?.bodySize || 0\<close>\<close>

definition bodySize :: "HarEntry \<Rightarrow> int option" where
  "bodySize e = (case e_response e of None \<Rightarrow> None | Some r \<Rightarrow> rs_bodySize r)"

definition bodySizeOf :: "HarEntry \<Rightarrow> int" where
  "bodySizeOf e = (case bodySize e of None \<Rightarrow> 0 | Some n \<Rightarrow> n)"

text \<open>\<^verbatim>\<open>e.response?.status\<close>\<close>

definition statusOf :: "HarEntry \<Rightarrow> int option" where
  "statusOf e = (case e_response e of None \<Rightarrow> None | Some r \<Rightarrow> rs_status r)"

text \<open>\<^verbatim>\<open>e.request?.url || ''\<close>, \<^verbatim>\<open>e.request?.method || ''\<close> and
  \<^verbatim>\<open>e.response?.content?.mimeType || ''\<close>\<close>

definition urlOf :: "HarEntry \<Rightarrow> string" where
  "urlOf e = (case e_request e of None \<Rightarrow> [] | Some rq \<Rightarrow>
     (case rq_url rq of None \<Rightarrow> [] | Some u \<Rightarrow> u))"

definition methodOf :: "HarEntry \<Rightarrow> string" where
  "methodOf e = (case e_request e of None \<Rightarrow> [] | Some rq \<Rightarrow>
     (case rq_method rq of None \<Rightarrow> [] | Some m \<Rightarrow> m))"

definition mimeTypeOf :: "HarEntry \<Rightarrow> string" where
  "mimeTypeOf e = (case e_response e of None \<Rightarrow> [] | Some r \<Rightarrow>
     (case rs_content r of None \<Rightarrow> [] | Some c \<Rightarrow>
       (case c_mimeType c of None \<Rightarrow> [] | Some m \<Rightarrow> m)))"

text \<open>\<^verbatim>\<open>e.response?.status >= 400\<close>: false when the status is absent.\<close>

definition isFailed :: "HarEntry \<Rightarrow> bool" where
  "isFailed e = (case statusOf e of None \<Rightarrow> False | Some s \<Rightarrow> s \<ge> 400)"

subsection \<open>Strings\<close>

text \<open>\<^verbatim>\<open>s.includes(sub)\<close>: \<open>sub\<close> occurs in \<open>s\<close> as a contiguous block.\<close>

fun includes_str :: "string \<Rightarrow> string \<Rightarrow> bool" where
  "includes_str [] sub = (sub = [])"
| "includes_str (c # cs) sub = (prefix sub (c # cs) \<or> includes_str cs sub)"

text \<open>The case folding of a regular expression with the flag \<^verbatim>\<open>i\<close>, on the letters
  of the patterns (ASCII): an upper-case ASCII letter matches its lower-case letter, and
  any other character matches only itself.\<close>

definition toLowerAscii :: "char \<Rightarrow> char" where
  "toLowerAscii c =
     (case map_of (zip ''ABCDEFGHIJKLMNOPQRSTUVWXYZ'' ''abcdefghijklmnopqrstuvwxyz'') c of
        None \<Rightarrow> c | Some l \<Rightarrow> l)"

text \<open>\<^verbatim>\<open>url.match(/\.(e1|e2|...)$/i)\<close>: the url ends with a dot and one of the
  extensions, whatever the case of its letters.\<close>

definition matchExt :: "string list \<Rightarrow> string \<Rightarrow> bool" where
  "matchExt exts url = list_ex (\<lambda>x. suffix (CHR ''.'' # x) (map toLowerAscii url)) exts"

subsection \<open>Statistics\<close>

text \<open>An array read \<^verbatim>\<open>xs[i]\<close>: \<^verbatim>\<open>undefined\<close> (\<open>None\<close>) outside the array.\<close>

definition jsIndex :: "'a list \<Rightarrow> int \<Rightarrow> 'a option" where
  "jsIndex xs i = (if 0 \<le> i \<and> i < int (length xs) then Some (xs ! nat i) else None)"

definition calculateMedian :: "real list \<Rightarrow> real" where
  "calculateMedian values =
     (if values = [] then 0
      else let sorted = sort values;
               mid = length sorted div 2
           in if length sorted mod 2 \<noteq> 0 then sorted ! mid
              else (sorted ! (mid - 1) + sorted ! mid) / 2)"

definition calculatePercentile :: "real list \<Rightarrow> real \<Rightarrow> real option" where
  "calculatePercentile values percentile =
     (if values = [] then Some 0
      else let sorted = sort values;
               index = \<lceil>(percentile / 100) * real (length sorted)\<rceil> - 1
           in jsIndex sorted (max 0 index))"

record Summary =
  s_totalRequests :: nat
  s_totalTime :: real
  s_totalSize :: int
  s_failedRequests :: nat
  s_averageResponseTime :: real
  s_medianResponseTime :: real
  s_percentile95 :: "real option"
  s_percentile99 :: "real option"

definition calculateSummary :: "HarEntry list \<Rightarrow> Summary" where
  "calculateSummary entries =
     (if entries = [] then
        \<lparr>s_totalRequests = 0, s_totalTime = 0, s_totalSize = 0, s_failedRequests = 0,
         s_averageResponseTime = 0, s_medianResponseTime = 0,
         s_percentile95 = Some 0, s_percentile99 = Some 0\<rparr>
      else let times = map timeOf entries;
               totalTime = fold (\<lambda>t sum. sum + t) times 0
           in \<lparr>s_totalRequests = length entries,
               s_totalTime = totalTime,
               s_totalSize = fold (\<lambda>e sum. sum + bodySizeOf e) entries 0,
               s_failedRequests = length (filter isFailed entries),
               s_averageResponseTime =
                 (if length entries > 0 then totalTime / real (length entries) else 0),
               s_medianResponseTime = calculateMedian times,
               s_percentile95 = calculatePercentile times 95,
               s_percentile99 = calculatePercentile times 99\<rparr>)"

subsection \<open>Categories\<close>

record RequestTypeMetrics =
  t_count :: nat
  t_totalTime :: real
  t_totalSize :: int
  t_averageTime :: "real option"

type_synonym Categories = "(string \<times> RequestTypeMetrics) list"

definition zeroMetrics :: RequestTypeMetrics where
  "zeroMetrics = \<lparr>t_count = 0, t_totalTime = 0, t_totalSize = 0, t_averageTime = None\<rparr>"

definition initialCategories :: Categories where
  "initialCategories =
     [(''api'', zeroMetrics), (''javascript'', zeroMetrics), (''css'', zeroMetrics),
      (''images'', zeroMetrics), (''fonts'', zeroMetrics), (''html'', zeroMetrics),
      (''other'', zeroMetrics)]"

text \<open>The if-chain of the loop body of \<^verbatim>\<open>categorizeRequests\<close>, in the source's order.\<close>

definition categoryOf :: "HarEntry \<Rightarrow> string" where
  "categoryOf entry =
     (let url = urlOf entry; mimeType = mimeTypeOf entry in
      if includes_str url ''/api/'' \<or> includes_str url ''graphql'' \<or>
         includes_str url ''/rest/'' \<or> includes_str mimeType ''json'' then ''api''
      else if matchExt [''js'', ''mjs'', ''jsx'', ''ts'', ''tsx''] url \<or>
         includes_str mimeType ''javascript'' then ''javascript''
      else if matchExt [''css'', ''scss'', ''sass'', ''less''] url \<or>
         includes_str mimeType ''css'' then ''css''
      else if matchExt [''png'', ''jpg'', ''jpeg'', ''gif'', ''svg'', ''webp'', ''ico'', ''bmp''] url \<or>
         includes_str mimeType ''image'' then ''images''
      else if matchExt [''woff'', ''woff2'', ''ttf'', ''eot'', ''otf''] url \<or>
         includes_str mimeType ''font'' then ''fonts''
      else if matchExt [''html'', ''htm''] url \<or> includes_str mimeType ''html'' then ''html''
      else ''other'')"

text \<open>The three updates of \<^verbatim>\<open>categories[category]\<close>. The property read cannot fail:
  the category is always a key of the table (lemma \<open>categoryOf_key\<close> below).\<close>

definition addToCategory :: "HarEntry \<Rightarrow> RequestTypeMetrics \<Rightarrow> RequestTypeMetrics" where
  "addToCategory entry m =
     m\<lparr>t_count := t_count m + 1,
       t_totalTime := t_totalTime m + timeOf entry,
       t_totalSize := t_totalSize m + bodySizeOf entry\<rparr>"

definition categorizeEntry :: "HarEntry \<Rightarrow> Categories \<Rightarrow> Categories" where
  "categorizeEntry entry categories =
     AList.map_entry (categoryOf entry) (addToCategory entry) categories"

definition setAverageTime :: "RequestTypeMetrics \<Rightarrow> RequestTypeMetrics" where
  "setAverageTime m =
     (if t_count m > 0 then m\<lparr>t_averageTime := Some (t_totalTime m / real (t_count m))\<rparr>
      else m)"

definition categorizeRequests :: "HarEntry list \<Rightarrow> Categories" where
  "categorizeRequests entries =
     (if entries = [] then initialCategories
      else map (\<lambda>(key, m). (key, setAverageTime m))
             (fold categorizeEntry entries initialCategories))"

subsection \<open>Rankings\<close>

record RequestInfo =
  ri_url :: string
  ri_method :: string
  ri_time :: real
  ri_status :: int

record FailedRequestInfo =
  fr_url :: string
  fr_method :: string
  fr_status :: int
  fr_statusText :: string
  fr_time :: real

record LargeRequestInfo =
  lr_url :: string
  lr_size :: int
  lr_time :: real

text \<open>\<^verbatim>\<open>Array.prototype.sort\<close> is stable, and so is \<open>sort_key\<close>. The comparator
  \<^verbatim>\<open>(a, b) => key(b) - key(a)\<close> orders by decreasing key: the key is negated.\<close>

definition getSlowRequests :: "HarEntry list \<Rightarrow> nat \<Rightarrow> RequestInfo list" where
  "getSlowRequests entries limit =
     (if entries = [] then []
      else map (\<lambda>e. \<lparr>ri_url = urlOf e, ri_method = methodOf e, ri_time = timeOf e,
                      ri_status = (case statusOf e of None \<Rightarrow> 0 | Some s \<Rightarrow> s)\<rparr>)
             (take limit
               (sort_key (\<lambda>e. - timeOf e)
                 (filter (\<lambda>e. e_request e \<noteq> None \<and> e_response e \<noteq> None) entries))))"

text \<open>The filter \<^verbatim>\<open>e.response?.status >= 400\<close> and the map that follows it, in one
  pass: an entry is kept with the status the filter has read.\<close>

definition getFailedRequests :: "HarEntry list \<Rightarrow> FailedRequestInfo list" where
  "getFailedRequests entries =
     (if entries = [] then []
      else List.map_filter
             (\<lambda>e. case e_response e of None \<Rightarrow> None
                  | Some r \<Rightarrow>
                     (case rs_status r of None \<Rightarrow> None
                      | Some s \<Rightarrow>
                         if s \<ge> 400
                         then Some \<lparr>fr_url = urlOf e, fr_method = methodOf e, fr_status = s,
                                    fr_statusText =
                                      (case rs_statusText r of None \<Rightarrow> [] | Some t \<Rightarrow> t),
                                    fr_time = timeOf e\<rparr>
                         else None))
             entries)"

text \<open>\<^verbatim>\<open>e.response?.bodySize\<close> as a condition: present and not zero.\<close>

definition hasBodySize :: "HarEntry \<Rightarrow> bool" where
  "hasBodySize e = (case bodySize e of None \<Rightarrow> False | Some n \<Rightarrow> n \<noteq> 0)"

definition getLargestRequests :: "HarEntry list \<Rightarrow> nat \<Rightarrow> LargeRequestInfo list" where
  "getLargestRequests entries limit =
     (if entries = [] then []
      else map (\<lambda>e. \<lparr>lr_url = urlOf e, lr_size = bodySizeOf e, lr_time = timeOf e\<rparr>)
             (take limit (sort_key (\<lambda>e. - bodySizeOf e) (filter hasBodySize entries))))"

subsection \<open>Endpoint metrics\<close>

text \<open>\<open>minTime\<close> starts as \<^verbatim>\<open>Infinity\<close>; \<^verbatim>\<open>Math.min\<close> of it and a sample is the sample.\<close>

datatype MinTime = Infinity | Num real

fun mathMin :: "MinTime \<Rightarrow> real \<Rightarrow> MinTime" where
  "mathMin Infinity t = Num t"
| "mathMin (Num m) t = Num (min m t)"

record EndpointMetrics =
  ep_count :: nat
  ep_totalTime :: real
  ep_averageTime :: real
  ep_minTime :: MinTime
  ep_maxTime :: real

type_synonym Endpoints = "(string \<times> EndpointMetrics) list"

record ApiMetrics =
  a_totalCalls :: nat
  a_endpoints :: Endpoints

datatype ConsoleMessage = ConsoleError string | ConsoleWarn string

definition isApiCall :: "HarEntry \<Rightarrow> bool" where
  "isApiCall e =
     (let url = urlOf e; mimeType = mimeTypeOf e in
      includes_str url ''/api/'' \<or> includes_str url ''graphql'' \<or>
      includes_str url ''/rest/'' \<or> includes_str url ''/SXMain/'' \<or>
      includes_str url ''/moduleservices/'' \<or> includes_str mimeType ''json'')"

text \<open>The conversion of a possibly absent string to a string, in \<^verbatim>\<open>new URL(x)\<close> and
  in a template literal.\<close>

definition jsToString :: "string option \<Rightarrow> string" where
  "jsToString s = (case s of None \<Rightarrow> ''undefined'' | Some v \<Rightarrow> v)"

text \<open>The first two statements of the \<^verbatim>\<open>try\<close> block: \<open>None\<close> when one of them throws
  (\<^verbatim>\<open>call.request\<close> is absent, or the URL constructor rejects the url).\<close>

definition endpointKey :: "(string \<Rightarrow> string option) \<Rightarrow> HarEntry \<Rightarrow> string option" where
  "endpointKey pathnameOf call =
     (case e_request call of None \<Rightarrow> None
      | Some rq \<Rightarrow>
         (case pathnameOf (jsToString (rq_url rq)) of None \<Rightarrow> None
          | Some pathname \<Rightarrow> Some (jsToString (rq_method rq) @ '' '' @ pathname)))"

definition newEndpoint :: EndpointMetrics where
  "newEndpoint =
     \<lparr>ep_count = 0, ep_totalTime = 0, ep_averageTime = 0, ep_minTime = Infinity, ep_maxTime = 0\<rparr>"

definition addSample :: "real \<Rightarrow> EndpointMetrics \<Rightarrow> EndpointMetrics" where
  "addSample t m =
     m\<lparr>ep_count := ep_count m + 1,
       ep_totalTime := ep_totalTime m + t,
       ep_minTime := mathMin (ep_minTime m) t,
       ep_maxTime := max (ep_maxTime m) t\<rparr>"

definition recordSample :: "string \<Rightarrow> real \<Rightarrow> Endpoints \<Rightarrow> Endpoints" where
  "recordSample key t endpoints =
     (let endpoints' = (if map_of endpoints key = None then endpoints @ [(key, newEndpoint)]
                        else endpoints)
      in AList.map_entry key (addSample t) endpoints')"

text \<open>One turn of \<^verbatim>\<open>apiCalls.forEach\<close>, on the endpoints and the console: the
  \<^verbatim>\<open>catch\<close> block warns and leaves the endpoints as they were.\<close>

definition recordCall ::
  "(string \<Rightarrow> string option) \<Rightarrow> HarEntry \<Rightarrow> Endpoints \<times> ConsoleMessage list
     \<Rightarrow> Endpoints \<times> ConsoleMessage list" where
  "recordCall pathnameOf call st =
     (case endpointKey pathnameOf call of
        None \<Rightarrow> (fst st, snd st @ [ConsoleWarn ''Invalid URL in API metrics:''])
      | Some key \<Rightarrow> (recordSample key (timeOf call) (fst st), snd st))"

definition setEndpointAverage :: "EndpointMetrics \<Rightarrow> EndpointMetrics" where
  "setEndpointAverage m =
     (if ep_count m > 0 then m\<lparr>ep_averageTime := ep_totalTime m / real (ep_count m)\<rparr> else m)"

definition getApiMetrics ::
  "(string \<Rightarrow> string option) \<Rightarrow> HarEntry list \<Rightarrow> ApiMetrics \<times> ConsoleMessage list" where
  "getApiMetrics pathnameOf entries =
     (if entries = [] then (\<lparr>a_totalCalls = 0, a_endpoints = []\<rparr>, [])
      else let apiCalls = filter isApiCall entries in
        if apiCalls = [] then (\<lparr>a_totalCalls = 0, a_endpoints = []\<rparr>, [])
        else let st = fold (recordCall pathnameOf) apiCalls ([], []) in
          (\<lparr>a_totalCalls = length apiCalls,
            a_endpoints = map (\<lambda>(key, m). (key, setEndpointAverage m)) (fst st)\<rparr>,
           snd st))"

subsection \<open>Thresholds and the report\<close>

record PerformanceThresholds =
  maxAverageResponseTime :: "real option"
  maxFailedRequests :: "real option"
  maxTotalTime :: "real option"
  maxRequestTime :: "real option"
  maxPageLoadTime :: "real option"

record ThresholdViolation =
  v_metric :: string
  v_threshold :: real
  v_actual :: real
  v_message :: string

record Performance =
  p_slowestRequests :: "RequestInfo list"
  p_failedRequests :: "FailedRequestInfo list"
  p_largestRequests :: "LargeRequestInfo list"

text \<open>The fields of the report that are not computed from the entries (the clock, the
  file name, the configured test name, the duration) are given. \<^verbatim>\<open>customMetrics\<close> is
  passed through by the code and left out here.\<close>

record ReportMeta =
  m_timestamp :: string
  m_harFile :: string
  m_testName :: "string option"
  m_testDuration :: real

record PerformanceReport =
  r_meta :: ReportMeta
  r_summary :: Summary
  r_requestTypes :: Categories
  r_performance :: Performance
  r_apiMetrics :: ApiMetrics
  r_thresholdViolations :: "ThresholdViolation list option"

text \<open>\<^verbatim>\<open>this.thresholds.maxAverageResponseTime && ..\<close> tests the bound for truthiness
  (present and not zero); \<^verbatim>\<open>this.thresholds.maxFailedRequests !== undefined && ..\<close>
  tests it for presence.\<close>

definition checkThresholds ::
  "PerformanceThresholds option \<Rightarrow> PerformanceReport \<Rightarrow> ThresholdViolation list" where
  "checkThresholds thresholds report =
     (case thresholds of None \<Rightarrow> []
      | Some th \<Rightarrow>
         (case maxAverageResponseTime th of
            None \<Rightarrow> []
          | Some bound \<Rightarrow>
             if bound \<noteq> 0 \<and> s_averageResponseTime (r_summary report) > bound
             then [\<lparr>v_metric = ''averageResponseTime'', v_threshold = bound,
                    v_actual = s_averageResponseTime (r_summary report),
                    v_message = ''Average response time exceeded threshold''\<rparr>]
             else [])
         @
         (case maxFailedRequests th of
            None \<Rightarrow> []
          | Some bound \<Rightarrow>
             if real (s_failedRequests (r_summary report)) > bound
             then [\<lparr>v_metric = ''failedRequests'', v_threshold = bound,
                    v_actual = real (s_failedRequests (r_summary report)),
                    v_message = ''Failed requests exceeded threshold''\<rparr>]
             else []))"

text \<open>The report literal of \<^verbatim>\<open>generateReport\<close>, and the threshold check after it.\<close>

definition buildReport ::
  "(string \<Rightarrow> string option) \<Rightarrow> ReportMeta \<Rightarrow> PerformanceThresholds option \<Rightarrow> HarEntry list
     \<Rightarrow> PerformanceReport \<times> ConsoleMessage list" where
  "buildReport pathnameOf meta thresholds entries =
     (let api = getApiMetrics pathnameOf entries;
          report = \<lparr>r_meta = meta,
                    r_summary = calculateSummary entries,
                    r_requestTypes = categorizeRequests entries,
                    r_performance =
                      \<lparr>p_slowestRequests = getSlowRequests entries 10,
                       p_failedRequests = getFailedRequests entries,
                       p_largestRequests = getLargestRequests entries 5\<rparr>,
                    r_apiMetrics = fst api,
                    r_thresholdViolations = None\<rparr>
      in (case thresholds of
            None \<Rightarrow> report
          | Some th \<Rightarrow> report\<lparr>r_thresholdViolations := Some (checkThresholds thresholds report)\<rparr>,
          snd api))"

text \<open>What \<^verbatim>\<open>JSON.parse\<close> makes of the file: it throws, or it gives a document whose
  \<^verbatim>\<open>log.entries\<close> may be absent.\<close>

datatype ParsedHar = SyntaxError | HarData "HarEntry list option"

text \<open>\<^verbatim>\<open>generateReport\<close> up to its return value: the file (\<open>None\<close> when it does not
  exist), the console output, and the report or \<^verbatim>\<open>null\<close> (\<open>None\<close>). Writing the JSON
  and HTML files is left out.\<close>

definition generateReport ::
  "(string \<Rightarrow> ParsedHar) \<Rightarrow> (string \<Rightarrow> string option) \<Rightarrow> ReportMeta
     \<Rightarrow> PerformanceThresholds option \<Rightarrow> string option
     \<Rightarrow> PerformanceReport option \<times> ConsoleMessage list" where
  "generateReport jsonParse pathnameOf meta thresholds harFile =
     (case harFile of
        None \<Rightarrow> (None, [ConsoleError (''HAR file not found: '' @ m_harFile meta)])
      | Some bytes \<Rightarrow>
         (case jsonParse bytes of
            SyntaxError \<Rightarrow> (None, [ConsoleError ''Failed to parse HAR file:''])
          | HarData found \<Rightarrow>
             (let entries = (case found of None \<Rightarrow> [] | Some es \<Rightarrow> es) in
              if length entries = 0 then (None, [ConsoleWarn ''No entries found in HAR file''])
              else let built = buildReport pathnameOf meta thresholds entries
                   in (Some (fst built), snd built))))"

subsection \<open>Aggregation\<close>












subsection \<open>The rule table of the specification\<close>



subsection \<open>Example traces\<close>

text \<open>An entry with a time, a status and a url, and nothing else; and the trace of three
  entries of the specification's scenario.\<close>

definition entry :: "real \<Rightarrow> int \<Rightarrow> string \<Rightarrow> HarEntry" where
  "entry t s u =
     \<lparr>e_time = Some t,
      e_request = Some \<lparr>rq_url = Some u, rq_method = Some ''GET''\<rparr>,
      e_response = Some \<lparr>rs_status = Some s, rs_statusText = None, rs_bodySize = None,
                         rs_content = None\<rparr>\<rparr>"

definition scenarioTrace :: "HarEntry list" where
  "scenarioTrace = [entry 100 200 ''/a.js'', entry 200 404 ''/api/x'', entry 300 200 ''/img.png'']"

text \<open>The report data and the platform functions of the examples: a parser that accepts
  the document \<open>{}\<close> (an object without \<^verbatim>\<open>log\<close>) and rejects everything else, and a
  URL parser that accepts the absolute urls of one host and drops the query.\<close>

definition exampleMeta :: ReportMeta where
  "exampleMeta =
     \<lparr>m_timestamp = ''2024-01-01T00:00:00.000Z'', m_harFile = ''trace.har'',
      m_testName = Some ''performance-test'', m_testDuration = 600\<rparr>"

definition exampleParse :: "string \<Rightarrow> ParsedHar" where
  "exampleParse bytes = (if bytes = ''{}'' then HarData None else SyntaxError)"

definition examplePathname :: "string \<Rightarrow> string option" where
  "examplePathname u =
     (if prefix ''http://h'' u then Some (takeWhile (\<lambda>c. c \<noteq> CHR ''?'') (drop 8 u))
      else None)"

text \<open>Thresholds with the average bound, the failure bound, and one value for the three
  other bounds.\<close>

definition onlyBounds :: "real option \<Rightarrow> real option \<Rightarrow> real option \<Rightarrow> PerformanceThresholds" where
  "onlyBounds avg failed others =
     \<lparr>maxAverageResponseTime = avg, maxFailedRequests = failed,
      maxTotalTime = others, maxRequestTime = others, maxPageLoadTime = others\<rparr>"

text \<open>An entry with a url and a body size; a trace of API calls, one of them with a
  relative url; a summary with given totals, and a report with a name.\<close>

definition sizedEntry :: "string \<Rightarrow> int option \<Rightarrow> HarEntry" where
  "sizedEntry u n =
     \<lparr>e_time = Some 10,
      e_request = Some \<lparr>rq_url = Some u, rq_method = Some ''GET''\<rparr>,
      e_response = Some \<lparr>rs_status = Some 200, rs_statusText = None, rs_bodySize = n,
                         rs_content = None\<rparr>\<rparr>"

definition apiTrace :: "HarEntry list" where
  "apiTrace = [entry 100 200 ''http://h/api/x?q=1'', entry 50 200 ''/api/y'',
               entry 70 200 ''http://h/img.png'', entry 300 500 ''http://h/api/x'']"



subsection \<open>The invariant of an endpoint's metrics\<close>

text \<open>What holds of the metrics of an endpoint once it has a sample, when no sample is
  negative: the minimum is a number, and it is at most the maximum, which is at most the
  total.\<close>

definition sampled :: "EndpointMetrics \<Rightarrow> bool" where
  "sampled m =
     (0 < ep_count m \<and>
      (case ep_minTime m of
         Infinity \<Rightarrow> False
       | Num lo \<Rightarrow> 0 \<le> lo \<and> lo \<le> ep_maxTime m \<and> ep_maxTime m \<le> ep_totalTime m))"

section \<open>Properties\<close>

subsection \<open>Order statistics\<close>









subsection \<open>Categorization\<close>

text \<open>\<open>includes_str\<close> is containment of a contiguous block.\<close>

lemma includes_str_iff: "includes_str s sub \<longleftrightarrow> (\<exists>ps ss. s = ps @ sub @ ss)"
proof (induction s)
  case Nil
  then show ?case by simp
next
  case (Cons c cs)
  show ?case
  proof
    assume "includes_str (c # cs) sub"
    then consider "prefix sub (c # cs)" | "includes_str cs sub" by auto
    then show "\<exists>ps ss. c # cs = ps @ sub @ ss"
    proof cases
      case 1
      then obtain ss where "c # cs = sub @ ss" by (auto simp: prefix_def)
      then have "c # cs = [] @ sub @ ss" by simp
      then show ?thesis by blast
    next
      case 2
      then obtain ps ss where "cs = ps @ sub @ ss" using Cons.IH by blast
      then have "c # cs = (c # ps) @ sub @ ss" by simp
      then show ?thesis by blast
    qed
  next
    assume "\<exists>ps ss. c # cs = ps @ sub @ ss"
    then obtain ps ss where eq: "c # cs = ps @ sub @ ss" by blast
    show "includes_str (c # cs) sub"
    proof (cases ps)
      case Nil
      then have "prefix sub (c # cs)" using eq by (simp add: prefix_def)
      then show ?thesis by simp
    next
      case (Cons p ps')
      then have "cs = ps' @ sub @ ss" using eq by simp
      then have "includes_str cs sub" using Cons.IH by blast
      then show ?thesis by simp
    qed
  qed
qed

text \<open>The category of an entry is a key of the table, so \<^verbatim>\<open>categories[category]\<close> is
  always an object.\<close>

lemma categoryOf_key: "categoryOf e \<in> set (map fst initialCategories)"
  by (simp add: categoryOf_def initialCategories_def Let_def)





lemma map_entry_keys: "map fst (AList.map_entry k f al) = map fst al"
  by (induction al) auto

lemma map_entry_count:
  "distinct (map fst al) \<Longrightarrow> k \<in> set (map fst al) \<Longrightarrow>
   sum_list (map (\<lambda>p. t_count (snd p)) (AList.map_entry k (addToCategory e) al))
     = Suc (sum_list (map (\<lambda>p. t_count (snd p)) al))"
proof (induction al)
  case Nil
  then show ?case by simp
next
  case (Cons a al)
  obtain k' m where a: "a = (k', m)" by (cases a)
  show ?case
  proof (cases "k' = k")
    case True
    then show ?thesis using a by (simp add: addToCategory_def)
  next
    case False
    then show ?thesis using a Cons by auto
  qed
qed

text \<open>The loop keeps the seven keys and adds one to the total count at every entry.\<close>

lemma fold_categorizeEntry:
  "map fst cs = map fst initialCategories \<Longrightarrow>
   map fst (fold categorizeEntry es cs) = map fst initialCategories
   \<and> sum_list (map (\<lambda>p. t_count (snd p)) (fold categorizeEntry es cs))
       = sum_list (map (\<lambda>p. t_count (snd p)) cs) + length es"
proof (induction es arbitrary: cs)
  case Nil
  then show ?case by simp
next
  case (Cons e es)
  have d: "distinct (map fst cs)"
    using Cons.prems by (simp add: initialCategories_def)
  have k: "categoryOf e \<in> set (map fst cs)"
    using Cons.prems categoryOf_key by simp
  have keys: "map fst (categorizeEntry e cs) = map fst initialCategories"
    using Cons.prems by (simp add: categorizeEntry_def map_entry_keys)
  have cnt: "sum_list (map (\<lambda>p. t_count (snd p)) (categorizeEntry e cs))
          = Suc (sum_list (map (\<lambda>p. t_count (snd p)) cs))"
    unfolding categorizeEntry_def using d k by (rule map_entry_count)
  show ?case using Cons.IH [OF keys] cnt by simp
qed

lemma setAverageTime_count: "t_count (setAverageTime m) = t_count m"
  by (simp add: setAverageTime_def)

lemma calculateSummary_totalRequests: "s_totalRequests (calculateSummary es) = length es"
  by (simp add: calculateSummary_def Let_def)

lemma categorizeRequests_keys_counts:
  "map fst (categorizeRequests es) =
       [''api'', ''javascript'', ''css'', ''images'', ''fonts'', ''html'', ''other'']
   \<and> sum_list (map (\<lambda>p. t_count (snd p)) (categorizeRequests es)) = length es"
proof (cases "es = []")
  case True
  then show ?thesis
    by (simp add: categorizeRequests_def initialCategories_def zeroMetrics_def)
next
  case False
  have f: "map fst (fold categorizeEntry es initialCategories) = map fst initialCategories
     \<and> sum_list (map (\<lambda>p. t_count (snd p)) (fold categorizeEntry es initialCategories))
       = sum_list (map (\<lambda>p. t_count (snd p)) initialCategories) + length es"
    by (rule fold_categorizeEntry) simp
  have z: "sum_list (map (\<lambda>p. t_count (snd p)) initialCategories) = 0"
    by (simp add: initialCategories_def zeroMetrics_def)
  have names: "map fst initialCategories =
       [''api'', ''javascript'', ''css'', ''images'', ''fonts'', ''html'', ''other'']"
    by (simp add: initialCategories_def)
  show ?thesis
    using False f z names
    by (simp add: categorizeRequests_def Let_def comp_def case_prod_unfold setAverageTime_count)
qed

text \<open>
  Claim C5. For every trace, the counts of the seven categories add up to
  \<open>summary.totalRequests\<close>, which is the number of entries of the trace.
\<close>

theorem category_counts_total:
  "sum_list (map (\<lambda>p. t_count (snd p)) (categorizeRequests es))
     = s_totalRequests (calculateSummary es)
   \<and> s_totalRequests (calculateSummary es) = length es
   \<and> map fst (categorizeRequests es) =
       [''api'', ''javascript'', ''css'', ''images'', ''fonts'', ''html'', ''other'']"
  by (simp add: categorizeRequests_keys_counts calculateSummary_totalRequests)

theorem category_counts_total_witness:
  "sum_list (map (\<lambda>p. t_count (snd p)) (categorizeRequests scenarioTrace)) = 3
   \<and> s_totalRequests (calculateSummary scenarioTrace) = 3"
  using category_counts_total [of scenarioTrace] by (simp add: scenarioTrace_def)

subsection \<open>Thresholds\<close>

lemma scenario_summary:
  "s_totalRequests (calculateSummary scenarioTrace) = 3"
  "s_totalTime (calculateSummary scenarioTrace) = 600"
  "s_failedRequests (calculateSummary scenarioTrace) = 1"
  "s_averageResponseTime (calculateSummary scenarioTrace) = 200"
  "s_medianResponseTime (calculateSummary scenarioTrace) = 200"
  by (simp_all add: calculateSummary_def scenarioTrace_def entry_def timeOf_def isFailed_def
      statusOf_def calculateMedian_def Let_def)

lemma buildReport_summary:
  "r_summary (fst (buildReport pn meta th es)) = calculateSummary es"
  by (cases th) (simp_all add: buildReport_def Let_def)

lemma buildReport_violations:
  "r_thresholdViolations (fst (buildReport pn meta (Some th) es)) =
     Some (checkThresholds (Some th)
             \<lparr>r_meta = meta,
              r_summary = calculateSummary es,
              r_requestTypes = categorizeRequests es,
              r_performance =
                \<lparr>p_slowestRequests = getSlowRequests es 10,
                 p_failedRequests = getFailedRequests es,
                 p_largestRequests = getLargestRequests es 5\<rparr>,
              r_apiMetrics = fst (getApiMetrics pn es),
              r_thresholdViolations = None\<rparr>)"
  by (simp add: buildReport_def Let_def)

text \<open>The check reads two of the five bounds: whatever the three others are, the
  violations are the same.\<close>

lemma checkThresholds_two_bounds:
  "checkThresholds (Some th) report =
   checkThresholds
     (Some (th\<lparr>maxTotalTime := a, maxRequestTime := b, maxPageLoadTime := c\<rparr>)) report"
  by (simp add: checkThresholds_def)

text \<open>The scenario of the specification: \<open>maxFailedRequests = 0\<close> against the trace of
  three entries, one of them failed, gives exactly one violation.\<close>

lemma checkThresholds_scenario_failedRequests:
  "r_thresholdViolations
     (fst (buildReport pn meta (Some (onlyBounds None (Some 0) None)) scenarioTrace))
   = Some [\<lparr>v_metric = ''failedRequests'', v_threshold = 0, v_actual = 1,
            v_message = ''Failed requests exceeded threshold''\<rparr>]"
  by (simp add: buildReport_violations checkThresholds_def onlyBounds_def scenario_summary)

text \<open>
  Claim C1 (the code departs from it). On the trace of the scenario, whose total time is
  600, whose slowest request takes 300 and whose average is 200: with \<open>maxTotalTime\<close>,
  \<open>maxRequestTime\<close> and \<open>maxPageLoadTime\<close> set to 100 the threshold check reports no
  violation, and with \<open>maxAverageResponseTime\<close> set to 0 it reports none either.
\<close>

theorem checkThresholds_unenforced_bounds:
  "r_thresholdViolations
     (fst (buildReport pn meta (Some (onlyBounds None None (Some 100))) scenarioTrace)) = Some []
   \<and> s_totalTime (calculateSummary scenarioTrace) = 600
   \<and> map timeOf scenarioTrace = [100, 200, 300]
   \<and> r_thresholdViolations
       (fst (buildReport pn meta (Some (onlyBounds (Some 0) None None)) scenarioTrace)) = Some []
   \<and> s_averageResponseTime (calculateSummary scenarioTrace) = 200"
  by (simp add: buildReport_violations checkThresholds_def onlyBounds_def scenario_summary)
    (simp add: scenarioTrace_def entry_def timeOf_def)

subsection \<open>The report of an empty or unreadable trace\<close>

text \<open>
  Claim C6 as stated fails: a trace that parses to zero entries and a trace that does
  not parse give the caller the same value, \<^verbatim>\<open>null\<close>.
\<close>

theorem generateReport_empty_like_unparsable:
  "exampleParse ''{}'' = HarData None \<and> exampleParse ''<html>'' = SyntaxError
   \<and> fst (generateReport exampleParse examplePathname exampleMeta None (Some ''{}'')) = None
   \<and> fst (generateReport exampleParse examplePathname exampleMeta None (Some ''<html>'')) = None
   \<and> fst (generateReport exampleParse examplePathname exampleMeta None (Some ''{}''))
     = fst (generateReport exampleParse examplePathname exampleMeta None (Some ''<html>''))"
  by (simp add: generateReport_def exampleParse_def)

text \<open>
  Claim C6, amended. For every trace that parses but contains zero entries,
  \<open>generateReport\<close> returns \<^verbatim>\<open>null\<close> and warns on the console that no entries were
  found; it never returns a report of zero requests. A trace that cannot be parsed gives
  the same return value, \<^verbatim>\<open>null\<close>, with an error on the console: the two cases differ
  in the console message only.
\<close>

theorem generateReport_no_report:
  "(jsonParse bytes = HarData found \<and> (case found of None \<Rightarrow> [] | Some es \<Rightarrow> es) = []
      \<longrightarrow> generateReport jsonParse pn meta th (Some bytes)
            = (None, [ConsoleWarn ''No entries found in HAR file'']))
   \<and> (jsonParse bytes = SyntaxError
      \<longrightarrow> generateReport jsonParse pn meta th (Some bytes)
            = (None, [ConsoleError ''Failed to parse HAR file:'']))
   \<and> (\<forall>r. fst (generateReport jsonParse pn meta th harFile) = Some r
      \<longrightarrow> 0 < s_totalRequests (r_summary r))"
proof -
  have "0 < s_totalRequests (r_summary r)"
    if "fst (generateReport jsonParse pn meta th harFile) = Some r" for r
    using that
    by (auto simp: generateReport_def Let_def buildReport_summary calculateSummary_totalRequests
        split: option.splits ParsedHar.splits if_splits)
  then show ?thesis by (simp add: generateReport_def)
qed

theorem generateReport_no_report_witness:
  "generateReport exampleParse examplePathname exampleMeta None (Some ''{}'')
     = (None, [ConsoleWarn ''No entries found in HAR file''])
   \<and> generateReport exampleParse examplePathname exampleMeta None (Some ''<html>'')
     = (None, [ConsoleError ''Failed to parse HAR file:''])
   \<and> (\<exists>r. fst (generateReport (\<lambda>b. HarData (Some scenarioTrace)) examplePathname exampleMeta
                  None (Some ''{}'')) = Some r
         \<and> 0 < s_totalRequests (r_summary r))"
proof -
  have a: "exampleParse ''{}'' = HarData None" "exampleParse ''<html>'' = SyntaxError"
    by (simp_all add: exampleParse_def)
  have b: "fst (generateReport (\<lambda>b. HarData (Some scenarioTrace)) examplePathname exampleMeta
                  None (Some ''{}''))
     = Some (fst (buildReport examplePathname exampleMeta None scenarioTrace))"
    by (simp add: generateReport_def scenarioTrace_def Let_def)
  show ?thesis
    using generateReport_no_report [of exampleParse "''{}''" None examplePathname exampleMeta
        None "Some ''{}''"]
      generateReport_no_report [of exampleParse "''<html>''" None examplePathname exampleMeta
        None "Some ''{}''"]
      generateReport_no_report [of "\<lambda>b. HarData (Some scenarioTrace)" "''{}''" None
        examplePathname exampleMeta None "Some ''{}''"]
      a b
    by simp
qed

subsection \<open>The largest requests\<close>

lemma hasBodySize_iff: "hasBodySize e \<longleftrightarrow> (\<exists>n. bodySize e = Some n \<and> n \<noteq> 0)"
  by (simp add: hasBodySize_def split: option.splits)

lemma hasBodySize_size:
  "hasBodySize e \<Longrightarrow> bodySize e = Some (bodySizeOf e) \<and> bodySizeOf e \<noteq> 0"
  by (auto simp: hasBodySize_def bodySizeOf_def split: option.splits)

text \<open>The early return for an empty trace agrees with the pipeline.\<close>

lemma getLargestRequests_pipeline:
  "getLargestRequests es limit =
     map (\<lambda>e. \<lparr>lr_url = urlOf e, lr_size = bodySizeOf e, lr_time = timeOf e\<rparr>)
       (take limit (sort_key (\<lambda>e. - bodySizeOf e) (filter hasBodySize es)))"
  by (simp add: getLargestRequests_def)

lemma buildReport_largest:
  "p_largestRequests (r_performance (fst (buildReport pn meta th es))) = getLargestRequests es 5"
  by (cases th) (simp_all add: buildReport_def Let_def)

lemma buildReport_requestTypes:
  "r_requestTypes (fst (buildReport pn meta th es)) = categorizeRequests es"
  by (cases th) (simp_all add: buildReport_def Let_def)

text \<open>
  Claim C10. For every trace, \<open>performance.largestRequests\<close> is made of the first five
  entries of a ranking of exactly the entries whose response bodySize is present and not
  zero, by decreasing size: so it has at most 5 elements. When every entry's bodySize is
  0 or absent the list is empty, though the entries still count in the summary and in
  the categories.
\<close>

theorem largestRequests_top_five:
  "\<exists>ranked.
      mset ranked = mset (filter hasBodySize es)
      \<and> sorted_wrt (\<lambda>a b. bodySizeOf a \<ge> bodySizeOf b) ranked
      \<and> p_largestRequests (r_performance (fst (buildReport pn meta th es)))
          = map (\<lambda>e. \<lparr>lr_url = urlOf e, lr_size = bodySizeOf e, lr_time = timeOf e\<rparr>)
              (take 5 ranked)
      \<and> (\<forall>e \<in> set ranked. e \<in> set es \<and> bodySize e = Some (bodySizeOf e) \<and> bodySizeOf e \<noteq> 0)
      \<and> length (p_largestRequests (r_performance (fst (buildReport pn meta th es)))) \<le> 5
      \<and> ((\<forall>e \<in> set es. bodySize e = None \<or> bodySize e = Some 0) \<longrightarrow>
            p_largestRequests (r_performance (fst (buildReport pn meta th es))) = []
            \<and> s_totalRequests (r_summary (fst (buildReport pn meta th es))) = length es
            \<and> sum_list (map (\<lambda>p. t_count (snd p))
                 (r_requestTypes (fst (buildReport pn meta th es)))) = length es)"
proof -
  define ranked where "ranked = sort_key (\<lambda>e. - bodySizeOf e) (filter hasBodySize es)"
  have m: "mset ranked = mset (filter hasBodySize es)"
    by (simp add: ranked_def)
  have "sorted (map (\<lambda>e. - bodySizeOf e) ranked)"
    by (simp add: ranked_def)
  then have s: "sorted_wrt (\<lambda>a b. bodySizeOf a \<ge> bodySizeOf b) ranked"
    by (simp add: sorted_map)
  have l: "p_largestRequests (r_performance (fst (buildReport pn meta th es)))
          = map (\<lambda>e. \<lparr>lr_url = urlOf e, lr_size = bodySizeOf e, lr_time = timeOf e\<rparr>)
              (take 5 ranked)"
    by (simp add: buildReport_largest getLargestRequests_pipeline ranked_def)
  have "set ranked = set (filter hasBodySize es)"
    using m by (rule mset_eq_setD)
  then have q: "\<forall>e \<in> set ranked.
      e \<in> set es \<and> bodySize e = Some (bodySizeOf e) \<and> bodySizeOf e \<noteq> 0"
    using hasBodySize_size by auto
  have n: "length (p_largestRequests (r_performance (fst (buildReport pn meta th es)))) \<le> 5"
    by (simp add: l)
  have z: "p_largestRequests (r_performance (fst (buildReport pn meta th es))) = []"
    if "\<forall>e \<in> set es. bodySize e = None \<or> bodySize e = Some 0"
  proof -
    have "filter hasBodySize es = []"
      using that by (auto simp: filter_empty_conv hasBodySize_iff)
    then show ?thesis by (simp add: l ranked_def)
  qed
  have t: "s_totalRequests (r_summary (fst (buildReport pn meta th es))) = length es"
    by (simp add: buildReport_summary calculateSummary_totalRequests)
  have c: "sum_list (map (\<lambda>p. t_count (snd p))
             (r_requestTypes (fst (buildReport pn meta th es)))) = length es"
    by (simp add: buildReport_requestTypes categorizeRequests_keys_counts)
  show ?thesis
    using m s l q n z t c by blast
qed

theorem largestRequests_top_five_witness:
  "map bodySize [sizedEntry ''/a'' (Some 0), sizedEntry ''/b'' None] = [Some 0, None]
   \<and> p_largestRequests (r_performance (fst (buildReport examplePathname exampleMeta None
        [sizedEntry ''/a'' (Some 0), sizedEntry ''/b'' None]))) = []
   \<and> s_totalRequests (r_summary (fst (buildReport examplePathname exampleMeta None
        [sizedEntry ''/a'' (Some 0), sizedEntry ''/b'' None]))) = 2
   \<and> getLargestRequests
        [sizedEntry ''/a'' (Some 5), sizedEntry ''/b'' None, sizedEntry ''/c'' (Some 0),
         sizedEntry ''/d'' (Some 9)] 5
       = [\<lparr>lr_url = ''/d'', lr_size = 9, lr_time = 10\<rparr>, \<lparr>lr_url = ''/a'', lr_size = 5, lr_time = 10\<rparr>]"
proof -
  have b: "map bodySize [sizedEntry ''/a'' (Some 0), sizedEntry ''/b'' None] = [Some 0, None]"
    by (simp add: sizedEntry_def bodySize_def)
  then have h: "\<forall>e \<in> set [sizedEntry ''/a'' (Some 0), sizedEntry ''/b'' None].
      bodySize e = None \<or> bodySize e = Some 0"
    by simp
  have e: "p_largestRequests (r_performance (fst (buildReport examplePathname exampleMeta None
        [sizedEntry ''/a'' (Some 0), sizedEntry ''/b'' None]))) = []
      \<and> s_totalRequests (r_summary (fst (buildReport examplePathname exampleMeta None
        [sizedEntry ''/a'' (Some 0), sizedEntry ''/b'' None]))) = 2"
    using largestRequests_top_five [of "[sizedEntry ''/a'' (Some 0), sizedEntry ''/b'' None]"
        examplePathname exampleMeta None] h
    by auto
  have g: "getLargestRequests
        [sizedEntry ''/a'' (Some 5), sizedEntry ''/b'' None, sizedEntry ''/c'' (Some 0),
         sizedEntry ''/d'' (Some 9)] 5
       = [\<lparr>lr_url = ''/d'', lr_size = 9, lr_time = 10\<rparr>, \<lparr>lr_url = ''/a'', lr_size = 5, lr_time = 10\<rparr>]"
    by (simp add: getLargestRequests_def sizedEntry_def hasBodySize_def bodySize_def
        bodySizeOf_def urlOf_def timeOf_def)
  show ?thesis using b e g by blast
qed

subsection \<open>Aggregation\<close>












subsection \<open>Endpoint metrics\<close>

text \<open>The endpoints after the loop depend on the calls whose key can be built, and the
  console gets one warning for each of the others.\<close>

lemma recordCall_fst:
  "fst (recordCall pn call st) =
     (case endpointKey pn call of None \<Rightarrow> fst st
      | Some key \<Rightarrow> recordSample key (timeOf call) (fst st))"
  by (simp add: recordCall_def split: option.splits)

lemma fold_recordCall_fst:
  "fst (fold (recordCall pn) calls st)
     = fold (\<lambda>call eps. case endpointKey pn call of None \<Rightarrow> eps
                         | Some key \<Rightarrow> recordSample key (timeOf call) eps) calls (fst st)"
  by (induction calls arbitrary: st) (simp_all add: recordCall_fst)




lemma getApiMetrics_endpoints:
  "a_endpoints (fst (getApiMetrics pn es))
     = map (\<lambda>(key, m). (key, setEndpointAverage m))
         (fold (\<lambda>call eps. case endpointKey pn call of None \<Rightarrow> eps
                         | Some key \<Rightarrow> recordSample key (timeOf call) eps)
            (filter isApiCall es) [])"
  by (simp add: getApiMetrics_def Let_def fold_recordCall_fst)



lemma apiTrace_metrics:
  "getApiMetrics examplePathname apiTrace =
     (\<lparr>a_totalCalls = 3,
       a_endpoints = [(''GET /api/x'', \<lparr>ep_count = 2, ep_totalTime = 400, ep_averageTime = 200,
                                        ep_minTime = Num 100, ep_maxTime = 300\<rparr>)]\<rparr>,
      [ConsoleWarn ''Invalid URL in API metrics:''])"
  by (simp add: getApiMetrics_def apiTrace_def isApiCall_def entry_def urlOf_def mimeTypeOf_def
      Let_def recordCall_def endpointKey_def examplePathname_def jsToString_def recordSample_def
      newEndpoint_def addSample_def timeOf_def setEndpointAverage_def)



lemma sampled_first: "0 \<le> t \<Longrightarrow> sampled (addSample t newEndpoint)"
  by (simp add: sampled_def addSample_def newEndpoint_def)

lemma sampled_next: "0 \<le> t \<Longrightarrow> sampled m \<Longrightarrow> sampled (addSample t m)"
  by (auto simp: sampled_def addSample_def split: MinTime.splits)

lemma sampled_average: "sampled m \<Longrightarrow> sampled (setEndpointAverage m)"
  by (auto simp: sampled_def setEndpointAverage_def split: MinTime.splits)

lemma map_entry_all:
  "\<forall>p \<in> set al. P (snd p) \<Longrightarrow> (\<And>m. P m \<Longrightarrow> P (f m)) \<Longrightarrow>
   \<forall>p \<in> set (AList.map_entry k f al). P (snd p)"
  by (induction al) auto

lemma map_entry_fresh:
  "map_of al k = None \<Longrightarrow> AList.map_entry k f (al @ [(k, v)]) = al @ [(k, f v)]"
  by (induction al) (auto split: if_splits)

lemma recordSample_sampled:
  assumes "0 \<le> t" "\<forall>p \<in> set eps. sampled (snd p)"
  shows "\<forall>p \<in> set (recordSample key t eps). sampled (snd p)"
proof (cases "map_of eps key = None")
  case True
  then have "recordSample key t eps = eps @ [(key, addSample t newEndpoint)]"
    by (simp add: recordSample_def map_entry_fresh)
  then show ?thesis using assms sampled_first by auto
next
  case False
  then have "recordSample key t eps = AList.map_entry key (addSample t) eps"
    by (auto simp: recordSample_def)
  then show ?thesis using assms map_entry_all [of eps sampled "addSample t" key] sampled_next
    by simp
qed

lemma fold_sampled:
  "\<forall>e \<in> set calls. 0 \<le> timeOf e \<Longrightarrow> \<forall>p \<in> set eps. sampled (snd p) \<Longrightarrow>
   \<forall>p \<in> set (fold (\<lambda>call eps. case endpointKey pn call of None \<Rightarrow> eps
                         | Some key \<Rightarrow> recordSample key (timeOf call) eps) calls eps).
      sampled (snd p)"
proof (induction calls arbitrary: eps)
  case Nil
  then show ?case by simp
next
  case (Cons c calls)
  show ?case
  proof (cases "endpointKey pn c")
    case None
    then show ?thesis using Cons by simp
  next
    case (Some key)
    have "\<forall>p \<in> set (recordSample key (timeOf c) eps). sampled (snd p)"
      using Cons.prems by (intro recordSample_sampled) simp_all
    then show ?thesis using Some Cons.IH Cons.prems(1) by simp
  qed
qed

text \<open>
  Claim C9. For every trace whose entries have a non-negative elapsed time, every
  metrics value in the endpoints map has a positive count and a numeric minTime with
  minTime \<open>\<le>\<close> maxTime \<open>\<le>\<close> totalTime; a fresh endpoint starts with minTime = Infinity,
  which its first sample replaces.
\<close>

theorem endpoint_min_max_total:
  assumes "\<forall>e \<in> set es. 0 \<le> timeOf e"
    and "(key, m) \<in> set (a_endpoints (fst (getApiMetrics pn es)))"
  shows "0 < ep_count m
         \<and> (\<exists>lo. ep_minTime m = Num lo \<and> lo \<le> ep_maxTime m \<and> ep_maxTime m \<le> ep_totalTime m)
         \<and> ep_minTime newEndpoint = Infinity
         \<and> ep_minTime (addSample t newEndpoint) = Num t"
proof -
  have "\<forall>p \<in> set (fold (\<lambda>call eps. case endpointKey pn call of None \<Rightarrow> eps
                         | Some key \<Rightarrow> recordSample key (timeOf call) eps)
                 (filter isApiCall es) []). sampled (snd p)"
    using assms(1) by (intro fold_sampled) simp_all
  then have "\<forall>p \<in> set (a_endpoints (fst (getApiMetrics pn es))). sampled (snd p)"
    unfolding getApiMetrics_endpoints using sampled_average by auto
  then have "sampled m" using assms(2) by force
  then show ?thesis
    by (auto simp: sampled_def newEndpoint_def addSample_def split: MinTime.splits)
qed

theorem endpoint_min_max_total_witness:
  "map timeOf apiTrace = [100, 50, 70, 300]
   \<and> a_endpoints (fst (getApiMetrics examplePathname apiTrace))
       = [(''GET /api/x'', \<lparr>ep_count = 2, ep_totalTime = 400, ep_averageTime = 200,
                            ep_minTime = Num 100, ep_maxTime = 300\<rparr>)]
   \<and> (\<exists>lo. Num 100 = Num lo \<and> lo \<le> (300::real) \<and> (300::real) \<le> 400)"
proof -
  have t: "map timeOf apiTrace = [100, 50, 70, 300]"
    by (simp add: apiTrace_def entry_def timeOf_def)
  then have h: "\<forall>e \<in> set apiTrace. 0 \<le> timeOf e"
    by (simp add: apiTrace_def entry_def timeOf_def)
  have e: "a_endpoints (fst (getApiMetrics examplePathname apiTrace))
       = [(''GET /api/x'', \<lparr>ep_count = 2, ep_totalTime = 400, ep_averageTime = 200,
                            ep_minTime = Num 100, ep_maxTime = 300\<rparr>)]"
    by (simp add: apiTrace_metrics)
  then have i: "(''GET /api/x'', \<lparr>ep_count = 2, ep_totalTime = 400, ep_averageTime = 200,
                            ep_minTime = Num 100, ep_maxTime = 300\<rparr>)
      \<in> set (a_endpoints (fst (getApiMetrics examplePathname apiTrace)))"
    by simp
  have "\<exists>lo. Num 100 = Num lo \<and> lo \<le> (300::real) \<and> (300::real) \<le> 400"
    using endpoint_min_max_total [OF h i] by simp
  then show ?thesis using t e by blast
qed

end
